theory Spec2Isabelle
  imports Complex_Main "HOL-Library.Word" "HOL-Library.AList"
begin

section \<open>Values of the JavaScript runtime\<close>

text \<open>
  The program is \<^verbatim>\<open>netlify/functions/api.ts\<close>: two credential helpers, five Express
  route handlers and the exchange-rate resolver with its fallback table. Everything the
  handlers reach outside that file (the storage module, the crypto primitives, the
  \<open>parseInt\<close> builtin, the HTTP client, the environment and the clock) is a parameter of
  the model.

  A rejected promise or a thrown exception is the left injection of a sum; \<open>undefined\<close>
  is \<open>None\<close>. Strings are lists of 8-bit code units. A Number is \<open>NaN\<close>, an infinity or a
  real: the source computes in IEEE doubles, the model in exact reals, so an equation
  between finite numbers below holds in the program up to double rounding, and signed
  zeros are not told apart.
\<close>

type_synonym byte = "8 word"

datatype js_error = TypeError | RangeError | Thrown string

datatype jsnum = NaN | Num real | PosInfinity | NegInfinity

datatype jsval =
    JNull
  | JBool bool
  | JNum jsnum
  | JStr string
  | JArr "jsval list"
  | JObj "(string \<times> jsval) list"

text \<open>
  An object is the list of its own properties in insertion order. \<open>map_of o k\<close> reads
  \<open>o.k\<close>; \<open>AList.update k v o\<close> is the object literal \<open>{...o, k: v}\<close> (an existing key keeps
  its place, a new one goes last); \<open>AList.delete k o\<close> is what the rest pattern
  \<open>{k, ...rest} = o\<close> binds to \<open>rest\<close>.
\<close>

type_synonym obj = "(string \<times> jsval) list"

section \<open>Hex encoding, splitting, builtins\<close>

definition hex_digit :: "nat \<Rightarrow> char" where
  "hex_digit n = ''0123456789abcdef'' ! n"

text \<open>The value of a hex digit of either case; \<open>None\<close> for any other character.\<close>

definition unhex :: "char \<Rightarrow> nat option" where
  "unhex c =
     (let n = (of_char c :: nat)
      in if 48 \<le> n \<and> n \<le> 57 then Some (n - 48)
         else if 97 \<le> n \<and> n \<le> 102 then Some (n - 87)
         else if 65 \<le> n \<and> n \<le> 70 then Some (n - 55)
         else None)"

definition is_hex :: "char \<Rightarrow> bool" where
  "is_hex c = (unhex c \<noteq> None)"

text \<open>\<^verbatim>\<open>buf.toString('hex')\<close>: two lower-case digits for each byte.\<close>

definition to_hex :: "byte list \<Rightarrow> string" where
  "to_hex bs = concat (map (\<lambda>b. [hex_digit (unat b div 16), hex_digit (unat b mod 16)]) bs)"

text \<open>
  \<^verbatim>\<open>Buffer.from(s, 'hex')\<close>: decodes pair by pair and stops, keeping what it has, at the
  first pair that is not two hex digits; a trailing single character is dropped.
\<close>

fun from_hex :: "string \<Rightarrow> byte list" where
  "from_hex (a # b # rest) =
     (case unhex a of
        None \<Rightarrow> []
      | Some hi \<Rightarrow>
          (case unhex b of
             None \<Rightarrow> []
           | Some lo \<Rightarrow> of_nat (hi * 16 + lo) # from_hex rest))"
| "from_hex _ = []"

text \<open>
  \<^verbatim>\<open>s.split(sep)\<close> for a one-character separator: the pieces between the occurrences of
  the separator, so always at least one piece.
\<close>

fun split_on :: "char \<Rightarrow> string \<Rightarrow> string list" where
  "split_on sep [] = [[]]"
| "split_on sep (c # cs) =
     (if c = sep then [] # split_on sep cs
      else (case split_on sep cs of
              [] \<Rightarrow> [[c]]
            | p # ps \<Rightarrow> (c # p) # ps))"

text \<open>Array destructuring and indexing: a position past the end reads \<open>undefined\<close>.\<close>

fun element :: "'a list \<Rightarrow> nat \<Rightarrow> 'a option" where
  "element [] i = None"
| "element (x # xs) 0 = Some x"
| "element (x # xs) (Suc i) = element xs i"

text \<open>
  Two builtins of the runtime are parameters of the model: what \<^verbatim>\<open>parseInt\<close> with no
  radix returns on a string (a Number; it does not throw on a string), and how a
  Number prints.
\<close>

record builtins =
  parseInt :: "string \<Rightarrow> jsnum"
  number_toString :: "jsnum \<Rightarrow> string"

text \<open>
  \<open>ToString\<close> of a value read from a JSON body, which \<^verbatim>\<open>parseInt(req.body.userId)\<close>
  applies before it parses. An array prints its elements joined by commas, \<open>null\<close>
  elements as nothing. An object prints as \<open>[object Object]\<close> through the inherited
  \<open>toString\<close>; when a property of its own hides that method (a JSON value is never
  callable) the conversion throws a \<open>TypeError\<close>.
\<close>

fun ToString :: "builtins \<Rightarrow> jsval \<Rightarrow> js_error + string"
  and join_elements :: "builtins \<Rightarrow> jsval list \<Rightarrow> js_error + string" where
  "ToString rt JNull = Inr ''null''"
| "ToString rt (JBool b) = Inr (if b then ''true'' else ''false'')"
| "ToString rt (JNum n) = Inr (number_toString rt n)"
| "ToString rt (JStr s) = Inr s"
| "ToString rt (JArr xs) = join_elements rt xs"
| "ToString rt (JObj kvs) =
     (if map_of kvs ''toString'' = None then Inr ''[object Object]'' else Inl TypeError)"
| "join_elements rt [] = Inr []"
| "join_elements rt (x # xs) =
     (case (if x = JNull then Inr [] else ToString rt x) of
        Inl e \<Rightarrow> Inl e
      | Inr first \<Rightarrow>
          if xs = [] then Inr first
          else (case join_elements rt xs of
                  Inl e \<Rightarrow> Inl e
                | Inr others \<Rightarrow> Inr (first @ '','' @ others)))"

definition ToString_opt :: "builtins \<Rightarrow> jsval option \<Rightarrow> js_error + string" where
  "ToString_opt rt v = (case v of None \<Rightarrow> Inr ''undefined'' | Some x \<Rightarrow> ToString rt x)"

text \<open>\<^verbatim>\<open>n || d\<close> on Numbers: \<open>NaN\<close> and zero (of either sign) are falsy.\<close>

definition or_default :: "jsnum \<Rightarrow> jsnum \<Rightarrow> jsnum" where
  "or_default n d = (if n = NaN \<or> n = Num 0 then d else n)"

section \<open>Credential helpers\<close>

text \<open>
  The two primitives of Node's \<^verbatim>\<open>crypto\<close> module the helpers call: the random source and
  the key derivation function, a function of password, salt and key length.
\<close>

record crypto =
  randomBytes :: "nat \<Rightarrow> byte list"
  scrypt :: "string \<Rightarrow> string \<Rightarrow> nat \<Rightarrow> byte list"

text \<open>
  \<^verbatim>\<open>promisify(scrypt)\<close> with the argument check of Node: a password or a salt that is not
  a string (a buffer cannot come out of a JSON body or of \<open>split\<close>) is rejected with a
  \<open>TypeError\<close>.
\<close>

definition scryptAsync ::
  "crypto \<Rightarrow> jsval option \<Rightarrow> string option \<Rightarrow> nat \<Rightarrow> js_error + byte list" where
  "scryptAsync c password salt keylen =
     (case password of
        Some (JStr p) \<Rightarrow>
          (case salt of
             None \<Rightarrow> Inl TypeError
           | Some s \<Rightarrow> Inr (scrypt c p s keylen))
      | _ \<Rightarrow> Inl TypeError)"

text \<open>\<^verbatim>\<open>timingSafeEqual\<close> throws a \<open>RangeError\<close> on buffers of different lengths.\<close>

definition timingSafeEqual :: "byte list \<Rightarrow> byte list \<Rightarrow> js_error + bool" where
  "timingSafeEqual a b = (if length a \<noteq> length b then Inl RangeError else Inr (a = b))"

definition hashPassword :: "crypto \<Rightarrow> jsval option \<Rightarrow> js_error + string" where
  "hashPassword c password =
     (let salt = to_hex (randomBytes c 16)
      in case scryptAsync c password (Some salt) 64 of
           Inl e \<Rightarrow> Inl e
         | Inr buf \<Rightarrow> Inr (to_hex buf @ ''.'' @ salt))"

text \<open>
  \<open>supplied\<close> and \<open>stored\<close> are the run-time values the login handler passes. Calling
  \<open>split\<close> on a value that is not a string throws a \<open>TypeError\<close>.
\<close>

definition comparePasswords ::
  "crypto \<Rightarrow> jsval option \<Rightarrow> jsval option \<Rightarrow> js_error + bool" where
  "comparePasswords c supplied stored =
     (case stored of
        Some (JStr st) \<Rightarrow>
          (let parts = split_on CHR ''.'' st;
               hashed = element parts 0;
               salt = element parts 1
           in case hashed of
                None \<Rightarrow> Inl TypeError
              | Some h \<Rightarrow>
                  (let hashedBuf = from_hex h
                   in case scryptAsync c supplied salt 64 of
                        Inl e \<Rightarrow> Inl e
                      | Inr suppliedBuf \<Rightarrow> timingSafeEqual hashedBuf suppliedBuf))
      | _ \<Rightarrow> Inl TypeError)"

text \<open>
  The format the data model gives a stored credential: the hex of a 64-byte key, one
  dot, the hex of the salt.
\<close>

definition well_formed_stored :: "string \<Rightarrow> bool" where
  "well_formed_stored st =
     (case split_on CHR ''.'' st of
        [hashed, salt] \<Rightarrow> length hashed = 128 \<and> list_all is_hex hashed \<and> list_all is_hex salt
      | _ \<Rightarrow> False)"

section \<open>Requests, responses and the storage collaborator\<close>

record request =
  body :: obj
  query :: "(string \<times> string) list"

record response =
  status :: nat
  json :: jsval

definition error_body :: "string \<Rightarrow> jsval" where
  "error_body msg = JObj [(''error'', JStr msg)]"

text \<open>
  The storage module is imported, not defined, by the program: its four operations are
  parameters over a storage state \<open>'s\<close>. The two lookups read the state; the two writes
  return the new state, also when they throw.
\<close>

record 's storage =
  getUserByUsername :: "'s \<Rightarrow> jsval option \<Rightarrow> js_error + obj option"
  createUser :: "'s \<Rightarrow> obj \<Rightarrow> (js_error + obj) \<times> 's"
  saveConversion :: "'s \<Rightarrow> obj \<Rightarrow> (js_error + jsval) \<times> 's"
  getConversions :: "'s \<Rightarrow> jsnum \<Rightarrow> jsnum \<Rightarrow> jsnum \<Rightarrow> js_error + jsval"

section \<open>Exchange rates\<close>

definition baseRates :: "(string \<times> real) list" where
  "baseRates =
     [(''USD'', 1), (''EUR'', 0.85), (''GBP'', 0.73), (''JPY'', 110.45), (''CAD'', 1.25),
      (''AUD'', 1.32), (''CHF'', 0.92), (''CNY'', 6.45), (''INR'', 74.5), (''RUB'', 73.2)]"

text \<open>
  \<^verbatim>\<open>baseRates[baseCurrency]\<close> is a property read on an object literal: an own property
  gives its number, a name that \<^verbatim>\<open>Object.prototype\<close> defines gives the inherited member
  (a function, or the prototype object for \<^verbatim>\<open>__proto__\<close>), any other name gives
  \<open>undefined\<close>.
\<close>

datatype property = OwnNumber real | Inherited | Undefined

definition object_prototype_names :: "string list" where
  "object_prototype_names =
     [''constructor'', ''hasOwnProperty'', ''isPrototypeOf'', ''propertyIsEnumerable'',
      ''toLocaleString'', ''toString'', ''valueOf'', ''__proto__'',
      ''__defineGetter__'', ''__defineSetter__'', ''__lookupGetter__'', ''__lookupSetter__'']"

definition get_property :: "(string \<times> real) list \<Rightarrow> string \<Rightarrow> property" where
  "get_property tbl k =
     (case map_of tbl k of
        Some r \<Rightarrow> OwnNumber r
      | None \<Rightarrow> if k \<in> set object_prototype_names then Inherited else Undefined)"

text \<open>\<^verbatim>\<open>v || 1\<close>: \<open>undefined\<close> and zero are falsy, a function or an object is truthy.\<close>

definition or_one :: "property \<Rightarrow> property" where
  "or_one v =
     (case v of
        OwnNumber r \<Rightarrow> if r = 0 then OwnNumber 1 else OwnNumber r
      | Inherited \<Rightarrow> Inherited
      | Undefined \<Rightarrow> OwnNumber 1)"

text \<open>
  \<^verbatim>\<open>rate / baseValue\<close>: a function or an object converts to \<open>NaN\<close>, and so does the
  quotient. (A zero divisor gives an infinity or \<open>NaN\<close>; \<open>or_one\<close> never lets one through.)
\<close>

definition js_divide :: "real \<Rightarrow> property \<Rightarrow> jsnum" where
  "js_divide rate baseValue =
     (case baseValue of
        OwnNumber b \<Rightarrow>
          if b \<noteq> 0 then Num (rate / b)
          else if rate = 0 then NaN
          else if 0 < rate then PosInfinity else NegInfinity
      | _ \<Rightarrow> NaN)"

text \<open>\<open>now\<close> is what \<^verbatim>\<open>new Date().toUTCString()\<close> returns.\<close>

definition getFallbackRates :: "string \<Rightarrow> string \<Rightarrow> jsval" where
  "getFallbackRates now baseCurrency =
     (let baseValue = or_one (get_property baseRates baseCurrency);
          rates = map (\<lambda>(currency, rate). (currency, JNum (js_divide rate baseValue))) baseRates
      in JObj [(''base_code'', JStr baseCurrency),
               (''conversion_rates'', JObj rates),
               (''time_last_update_utc'', JStr now)])"

text \<open>\<^verbatim>\<open>snapshot.conversion_rates[currency]\<close>, for stating what a snapshot holds.\<close>

definition conversion_rate :: "jsval \<Rightarrow> string \<Rightarrow> jsval option" where
  "conversion_rate snapshot currency =
     (case snapshot of
        JObj props \<Rightarrow>
          (case map_of props ''conversion_rates'' of
             Some (JObj rates) \<Rightarrow> map_of rates currency
           | _ \<Rightarrow> None)
      | _ \<Rightarrow> None)"

text \<open>
  What the resolver reads from outside: the environment variable, the network and the
  clock. The network answers a GET with a response (the status and parsed body that
  axios ends with) or not at all; \<^verbatim>\<open>axios.get\<close> rejects in the second case and on a
  status outside 200..299.
\<close>

datatype http_outcome = NetworkError string | HttpResponse nat jsval

record environment =
  EXCHANGE_RATE_API_KEY :: "string option"
  http_get :: "string \<Rightarrow> http_outcome"
  utc_now :: string

record axios_response =
  response_status :: nat
  response_data :: jsval

definition axios_get :: "environment \<Rightarrow> string \<Rightarrow> js_error + axios_response" where
  "axios_get env url =
     (case http_get env url of
        NetworkError msg \<Rightarrow> Inl (Thrown msg)
      | HttpResponse st d \<Rightarrow>
          if 200 \<le> st \<and> st < 300 then Inr \<lparr>response_status = st, response_data = d\<rparr>
          else Inl (Thrown ''Request failed''))"

definition provider_url :: "string \<Rightarrow> string \<Rightarrow> string" where
  "provider_url apiKey baseCurrency =
     ''https://v6.exchangerate-api.com/v6/'' @ apiKey @ ''/latest/'' @ baseCurrency"

text \<open>The inner \<open>case\<close> is the \<open>try\<close> block, the outer one the \<open>catch\<close>.\<close>

definition fetchExchangeRates :: "environment \<Rightarrow> string \<Rightarrow> js_error + jsval" where
  "fetchExchangeRates env baseCurrency =
     (case (case EXCHANGE_RATE_API_KEY env of
              None \<Rightarrow> Inr (getFallbackRates (utc_now env) baseCurrency)
            | Some apiKey \<Rightarrow>
                if apiKey = [] then Inr (getFallbackRates (utc_now env) baseCurrency)
                else (case axios_get env (provider_url apiKey baseCurrency) of
                        Inl e \<Rightarrow> Inl e
                      | Inr resp \<Rightarrow> Inr (response_data resp)))
      of
        Inl error \<Rightarrow> Inr (getFallbackRates (utc_now env) baseCurrency)
      | Inr rates \<Rightarrow> Inr rates)"

section \<open>Route handlers\<close>

text \<open>
  Each handler is one \<open>try\<close> block whose \<open>catch\<close> answers 500 with the route's message.
  A handler that writes to storage returns the new storage state with its response.
\<close>

definition register_handler ::
  "crypto \<Rightarrow> 's storage \<Rightarrow> request \<Rightarrow> 's \<Rightarrow> response \<times> 's" where
  "register_handler c st req s =
     (case getUserByUsername st s (map_of (body req) ''username'') of
        Inl e \<Rightarrow> (\<lparr>status = 500, json = error_body ''Failed to register user''\<rparr>, s)
      | Inr (Some existingUser) \<Rightarrow>
          (\<lparr>status = 400, json = error_body ''Username already exists''\<rparr>, s)
      | Inr None \<Rightarrow>
          (case hashPassword c (map_of (body req) ''password'') of
             Inl e \<Rightarrow> (\<lparr>status = 500, json = error_body ''Failed to register user''\<rparr>, s)
           | Inr hashed \<Rightarrow>
               (case createUser st s (AList.update ''password'' (JStr hashed) (body req)) of
                  (Inl e, s') \<Rightarrow>
                    (\<lparr>status = 500, json = error_body ''Failed to register user''\<rparr>, s')
                | (Inr user, s') \<Rightarrow>
                    (\<lparr>status = 201, json = JObj (AList.delete ''password'' user)\<rparr>, s'))))"

definition login_handler :: "crypto \<Rightarrow> 's storage \<Rightarrow> request \<Rightarrow> 's \<Rightarrow> response" where
  "login_handler c st req s =
     (case getUserByUsername st s (map_of (body req) ''username'') of
        Inl e \<Rightarrow> \<lparr>status = 500, json = error_body ''Login failed''\<rparr>
      | Inr None \<Rightarrow> \<lparr>status = 401, json = error_body ''Invalid username or password''\<rparr>
      | Inr (Some user) \<Rightarrow>
          (case comparePasswords c (map_of (body req) ''password'') (map_of user ''password'') of
             Inl e \<Rightarrow> \<lparr>status = 500, json = error_body ''Login failed''\<rparr>
           | Inr ok \<Rightarrow>
               if \<not> ok then \<lparr>status = 401, json = error_body ''Invalid username or password''\<rparr>
               else \<lparr>status = 200, json = JObj (AList.delete ''password'' user)\<rparr>))"

text \<open>
  The exchange-rate route, over whatever the awaited rate fetch does; the handler is
  the route on \<open>fetchExchangeRates\<close>. \<open>requested_base\<close> is
  \<^verbatim>\<open>req.query.base as string || 'USD'\<close> (the empty string is falsy), and \<^verbatim>\<open>res.json\<close> with
  no status set answers 200.
\<close>

definition requested_base :: "request \<Rightarrow> string" where
  "requested_base req =
     (case map_of (query req) ''base'' of
        None \<Rightarrow> ''USD''
      | Some b \<Rightarrow> if b = [] then ''USD'' else b)"

definition exchange_rates_route ::
  "(string \<Rightarrow> js_error + jsval) \<Rightarrow> request \<Rightarrow> response" where
  "exchange_rates_route fetch req =
     (let baseCurrency = requested_base req
      in case fetch baseCurrency of
           Inl e \<Rightarrow> \<lparr>status = 500, json = error_body ''Failed to fetch exchange rates''\<rparr>
         | Inr rates \<Rightarrow> \<lparr>status = 200, json = rates\<rparr>)"

definition exchange_rates_handler :: "environment \<Rightarrow> request \<Rightarrow> response" where
  "exchange_rates_handler env req = exchange_rates_route (fetchExchangeRates env) req"

text \<open>
  \<^verbatim>\<open>parseInt(req.body.userId)\<close> first converts the value to a string, inside the \<open>try\<close>
  block: a conversion that throws is answered by the \<open>catch\<close>.
\<close>

definition post_conversions_handler ::
  "builtins \<Rightarrow> 's storage \<Rightarrow> request \<Rightarrow> 's \<Rightarrow> response \<times> 's" where
  "post_conversions_handler rt st req s =
     (case ToString_opt rt (map_of (body req) ''userId'') of
        Inl e \<Rightarrow> (\<lparr>status = 500, json = error_body ''Failed to save conversion''\<rparr>, s)
      | Inr inputString \<Rightarrow>
          (let userId = parseInt rt inputString;
               conversionData = AList.update ''userId'' (JNum userId) (body req)
           in case saveConversion st s conversionData of
                (Inl e, s') \<Rightarrow>
                  (\<lparr>status = 500, json = error_body ''Failed to save conversion''\<rparr>, s')
              | (Inr conversion, s') \<Rightarrow> (\<lparr>status = 201, json = conversion\<rparr>, s')))"

text \<open>
  The query parameters are strings (the source casts them so); an absent one is
  \<open>undefined\<close>, which \<open>parseInt\<close> reads as the string \<open>undefined\<close>.
\<close>

definition query_string :: "request \<Rightarrow> string \<Rightarrow> string" where
  "query_string req k = (case map_of (query req) k of None \<Rightarrow> ''undefined'' | Some v \<Rightarrow> v)"

definition get_conversions_handler ::
  "builtins \<Rightarrow> 's storage \<Rightarrow> request \<Rightarrow> 's \<Rightarrow> response" where
  "get_conversions_handler rt st req s =
     (let userId = parseInt rt (query_string req ''userId'');
          page = or_default (parseInt rt (query_string req ''page'')) (Num 1);
          pageSize = or_default (parseInt rt (query_string req ''pageSize'')) (Num 10)
      in case getConversions st s userId page pageSize of
           Inl e \<Rightarrow> \<lparr>status = 500, json = error_body ''Failed to fetch conversions''\<rparr>
         | Inr result \<Rightarrow> \<lparr>status = 200, json = result\<rparr>)"

section \<open>Sample collaborators\<close>

text \<open>
  Concrete collaborators on which the theorems below are instantiated: a key derivation
  that copies password and salt into the key, a fixed random source, a storage that
  keeps its users in a list, one whose every call throws and one whose writes throw,
  two environments of the resolver, and builtins given on the few strings the
  instances pass to them (\<open>parseInt\<close> of \<open>5\<close>, \<open>2\<close> and \<open>undefined\<close>, the last being \<open>NaN\<close>).
\<close>

definition sample_crypto :: crypto where
  "sample_crypto =
     \<lparr>randomBytes = (\<lambda>n. replicate n 0xA5),
      scrypt = (\<lambda>p s n. take n (map (\<lambda>ch. of_nat (of_char ch)) (p @ s) @ replicate n 0))\<rparr>"

definition memory_storage :: "obj list storage" where
  "memory_storage =
     \<lparr>getUserByUsername = (\<lambda>s name. Inr (find (\<lambda>u. map_of u ''username'' = name) s)),
      createUser =
        (\<lambda>s u. (Inr ((''id'', JNum (Num (real (length s + 1)))) # u),
                 s @ [(''id'', JNum (Num (real (length s + 1)))) # u])),
      saveConversion = (\<lambda>s conv. (Inr (JObj conv), s)),
      getConversions =
        (\<lambda>s userId page pageSize. Inr (JArr [JNum userId, JNum page, JNum pageSize]))\<rparr>"

definition broken_storage :: "obj list storage" where
  "broken_storage =
     \<lparr>getUserByUsername = (\<lambda>s name. Inl (Thrown ''connection lost'')),
      createUser = (\<lambda>s u. (Inl (Thrown ''connection lost''), s)),
      saveConversion = (\<lambda>s conv. (Inl (Thrown ''connection lost''), s)),
      getConversions = (\<lambda>s userId page pageSize. Inl (Thrown ''connection lost''))\<rparr>"

definition readonly_storage :: "obj list storage" where
  "readonly_storage =
     \<lparr>getUserByUsername = (\<lambda>s name. Inr (find (\<lambda>u. map_of u ''username'' = name) s)),
      createUser = (\<lambda>s u. (Inl (Thrown ''read-only file system''), s)),
      saveConversion = (\<lambda>s conv. (Inl (Thrown ''read-only file system''), s)),
      getConversions = (\<lambda>s userId page pageSize. Inr (JArr []))\<rparr>"

definition sample_env :: environment where
  "sample_env =
     \<lparr>EXCHANGE_RATE_API_KEY = Some ''k3y'',
      http_get = (\<lambda>url.
        if url = ''https://v6.exchangerate-api.com/v6/k3y/latest/USD''
        then HttpResponse 200 (JObj [(''result'', JStr ''success'')])
        else if url = ''https://v6.exchangerate-api.com/v6/k3y/latest/XXX''
        then HttpResponse 404 (JObj [(''result'', JStr ''error'')])
        else NetworkError ''ECONNRESET''),
      utc_now = ''Tue, 03 Nov 2026 00:00:00 GMT''\<rparr>"

definition offline_env :: environment where
  "offline_env =
     \<lparr>EXCHANGE_RATE_API_KEY = None,
      http_get = (\<lambda>url. NetworkError ''ENOTFOUND''),
      utc_now = ''Tue, 03 Nov 2026 00:00:00 GMT''\<rparr>"

definition sample_builtins :: builtins where
  "sample_builtins =
     \<lparr>parseInt = (\<lambda>s. if s = ''5'' then Num 5 else if s = ''2'' then Num 2 else NaN),
      number_toString = (\<lambda>n. ''1'')\<rparr>"

definition listing :: "(string \<times> string) list \<Rightarrow> request" where
  "listing q = \<lparr>body = [], query = q\<rparr>"

definition hunter2_stored :: string where
  "hunter2_stored =
     ''68756e74657232613561356135613561356135613561356135613561356135613561356135613500000000000000000000000000000000000000000000000000.a5a5a5a5a5a5a5a5a5a5a5a5a5a5a5a5''"

definition alice :: obj where
  "alice = [(''id'', JNum (Num 1)), (''username'', JStr ''alice''),
            (''password'', JStr hunter2_stored)]"

definition mallory :: obj where
  "mallory = [(''id'', JNum (Num 2)), (''username'', JStr ''mallory''),
              (''password'', JStr ''deadbeef'')]"

definition bob :: obj where
  "bob = [(''id'', JNum (Num 3)), (''username'', JStr ''bob''),
          (''password'', JStr hunter2_stored)]"

definition credentials :: "string \<Rightarrow> string \<Rightarrow> request" where
  "credentials name pw =
     \<lparr>body = [(''username'', JStr name), (''password'', JStr pw)], query = []\<rparr>"

section \<open>Hex and split lemmas\<close>

lemma hi_nibble: "unat (b :: byte) div 16 < 16"
proof -
  have "unat b < 256" using unsigned_less [of b] by simp
  then show ?thesis by arith
qed

lemma unhex_hex_digit: "n < 16 \<Longrightarrow> unhex (hex_digit n) = Some n"
proof -
  have "\<forall>k \<in> set [0..<16]. unhex (hex_digit k) = Some k"
    by (simp add: upt_rec hex_digit_def unhex_def)
  then show "n < 16 \<Longrightarrow> unhex (hex_digit n) = Some n" by simp
qed

lemma hex_digit_not_dot: "n < 16 \<Longrightarrow> hex_digit n \<noteq> CHR ''.''"
proof -
  have "\<forall>k \<in> set [0..<16]. hex_digit k \<noteq> CHR ''.''"
    by (simp add: upt_rec hex_digit_def)
  then show "n < 16 \<Longrightarrow> hex_digit n \<noteq> CHR ''.''" by simp
qed

lemma from_hex_to_hex: "from_hex (to_hex bs) = bs"
  by (induction bs) (simp_all add: to_hex_def unhex_hex_digit hi_nibble)

lemma dot_notin_to_hex: "CHR ''.'' \<notin> set (to_hex bs)"
  by (induction bs) (simp_all add: to_hex_def hex_digit_not_dot hi_nibble not_sym)

lemma length_to_hex: "length (to_hex bs) = 2 * length bs"
  by (induction bs) (simp_all add: to_hex_def)

lemma split_on_no_sep: "sep \<notin> set s \<Longrightarrow> split_on sep s = [s]"
  by (induction s) auto

lemma split_on_first: "sep \<notin> set a \<Longrightarrow> split_on sep (a @ sep # b) = a # split_on sep b"
  by (induction a) auto

lemma split_stored:
  "split_on CHR ''.'' (to_hex key @ ''.'' @ to_hex salt) = [to_hex key, to_hex salt]"
  by (simp add: split_on_first split_on_no_sep dot_notin_to_hex)

section \<open>Credential helpers: hashing and verification\<close>

lemma hashPassword_string:
  "hashPassword c (Some (JStr p)) =
     Inr (to_hex (scrypt c p (to_hex (randomBytes c 16)) 64) @ ''.'' @ to_hex (randomBytes c 16))"
  by (simp add: hashPassword_def scryptAsync_def Let_def)

lemma comparePasswords_stored:
  "comparePasswords c (Some (JStr p)) (Some (JStr (to_hex key @ ''.'' @ to_hex salt))) =
     timingSafeEqual key (scrypt c p (to_hex salt) 64)"
  by (simp add: comparePasswords_def split_stored scryptAsync_def from_hex_to_hex
        del: append.simps)

lemma comparePasswords_no_dot:
  "CHR ''.'' \<notin> set stored \<Longrightarrow> comparePasswords c supplied (Some (JStr stored)) = Inl TypeError"
  by (simp add: comparePasswords_def split_on_no_sep scryptAsync_def
        split: option.splits jsval.splits)

lemma sample_salt: "to_hex (randomBytes sample_crypto 16) = ''a5a5a5a5a5a5a5a5a5a5a5a5a5a5a5a5''"
  by code_simp

lemma sample_hash: "hashPassword sample_crypto (Some (JStr ''hunter2'')) = Inr hunter2_stored"
  unfolding hunter2_stored_def by code_simp

text \<open>
  C1. For every password \<open>p\<close>, whatever bytes the random source gives and whatever
  function the key derivation is, \<open>hashPassword\<close> returns a stored string and
  \<open>comparePasswords\<close> of \<open>p\<close> against that string returns true.
\<close>

theorem verify_hash:
  "\<exists>stored. hashPassword c (Some (JStr p)) = Inr stored \<and>
     comparePasswords c (Some (JStr p)) (Some (JStr stored)) = Inr True"
  by (simp add: hashPassword_string comparePasswords_stored timingSafeEqual_def
        del: append.simps)

theorem verify_hash_witness:
  "hashPassword sample_crypto (Some (JStr ''hunter2'')) = Inr hunter2_stored \<and>
   comparePasswords sample_crypto (Some (JStr ''hunter2'')) (Some (JStr hunter2_stored)) = Inr True"
  using verify_hash [of sample_crypto "''hunter2''"] by (simp add: sample_hash)

text \<open>
  C2. When the random source gives the 16 bytes asked of it and the key derivation the
  64 bytes asked of it, \<open>hashPassword\<close> of a password \<open>p\<close> takes the hex of those 16
  random bytes (32 characters) as salt, derives a 64-byte key from \<open>p\<close> and that salt,
  and returns the hex of the key, a dot and the salt: 161 characters that split at the
  dot into exactly the key's hex and the salt.
\<close>

theorem hashPassword_format:
  assumes "length (randomBytes c 16) = 16"
    and "length (scrypt c p (to_hex (randomBytes c 16)) 64) = 64"
  shows "\<exists>salt key.
           salt = to_hex (randomBytes c 16) \<and> length salt = 32 \<and>
           scryptAsync c (Some (JStr p)) (Some salt) 64 = Inr key \<and> length key = 64 \<and>
           hashPassword c (Some (JStr p)) = Inr (to_hex key @ ''.'' @ salt) \<and>
           length (to_hex key @ ''.'' @ salt) = 161 \<and>
           split_on CHR ''.'' (to_hex key @ ''.'' @ salt) = [to_hex key, salt]"
  using assms
  by (simp add: hashPassword_string scryptAsync_def length_to_hex split_stored
        del: append.simps)

theorem hashPassword_format_witness:
  "length (randomBytes sample_crypto 16) = 16 \<and>
   length (scrypt sample_crypto ''hunter2'' (to_hex (randomBytes sample_crypto 16)) 64) = 64 \<and>
   (\<exists>salt key.
      salt = ''a5a5a5a5a5a5a5a5a5a5a5a5a5a5a5a5'' \<and> length salt = 32 \<and>
      scryptAsync sample_crypto (Some (JStr ''hunter2'')) (Some salt) 64 = Inr key \<and>
      length key = 64 \<and>
      hashPassword sample_crypto (Some (JStr ''hunter2'')) = Inr (to_hex key @ ''.'' @ salt) \<and>
      length (to_hex key @ ''.'' @ salt) = 161 \<and>
      split_on CHR ''.'' (to_hex key @ ''.'' @ salt) = [to_hex key, salt])"
proof -
  have h1: "length (randomBytes sample_crypto 16) = 16"
    by (simp add: sample_crypto_def)
  have h2: "length (scrypt sample_crypto ''hunter2'' (to_hex (randomBytes sample_crypto 16)) 64) = 64"
    by (simp add: sample_crypto_def)
  show ?thesis
    using h1 h2 hashPassword_format [OF h1 h2] unfolding sample_salt by simp
qed

text \<open>
  C10. For every stored credential string with no dot in it, \<open>split\<close> gives a single
  piece, the salt is \<open>undefined\<close>, the key derivation rejects it and \<open>comparePasswords\<close>
  raises a \<open>TypeError\<close> (it does not return false), whatever was supplied. A login for
  a user that storage returns with such a credential is answered 500 with the login
  route's message, not 401.
\<close>

theorem no_separator_raises:
  "CHR ''.'' \<notin> set stored \<longrightarrow>
     element (split_on CHR ''.'' stored) 1 = None \<and>
     comparePasswords c supplied (Some (JStr stored)) = Inl TypeError \<and>
     comparePasswords c supplied (Some (JStr stored)) \<noteq> Inr False \<and>
     (getUserByUsername st s (map_of (body req) ''username'') = Inr (Some user) \<and>
      map_of user ''password'' = Some (JStr stored) \<longrightarrow>
      login_handler c st req s = \<lparr>status = 500, json = error_body ''Login failed''\<rparr>)"
proof (intro impI conjI)
  assume nodot: "CHR ''.'' \<notin> set stored"
  then show "element (split_on CHR ''.'' stored) 1 = None"
    by (simp add: split_on_no_sep)
  from nodot show raises: "comparePasswords c supplied (Some (JStr stored)) = Inl TypeError"
    by (rule comparePasswords_no_dot)
  then show "comparePasswords c supplied (Some (JStr stored)) \<noteq> Inr False"
    by simp
  assume "getUserByUsername st s (map_of (body req) ''username'') = Inr (Some user) \<and>
      map_of user ''password'' = Some (JStr stored)"
  with nodot show "login_handler c st req s = \<lparr>status = 500, json = error_body ''Login failed''\<rparr>"
    by (simp add: login_handler_def comparePasswords_no_dot)
qed

theorem no_separator_raises_witness:
  "CHR ''.'' \<notin> set ''deadbeef'' \<and>
   comparePasswords sample_crypto (Some (JStr ''hunter2'')) (Some (JStr ''deadbeef'')) = Inl TypeError \<and>
   getUserByUsername memory_storage [alice, mallory]
     (map_of (body (credentials ''mallory'' ''hunter2'')) ''username'') = Inr (Some mallory) \<and>
   map_of mallory ''password'' = Some (JStr ''deadbeef'') \<and>
   login_handler sample_crypto memory_storage (credentials ''mallory'' ''hunter2'') [alice, mallory] =
     \<lparr>status = 500, json = JObj [(''error'', JStr ''Login failed'')]\<rparr>"
proof -
  have h1: "CHR ''.'' \<notin> set ''deadbeef''" by simp
  have h2: "getUserByUsername memory_storage [alice, mallory]
     (map_of (body (credentials ''mallory'' ''hunter2'')) ''username'') = Inr (Some mallory)"
    by (simp add: memory_storage_def credentials_def alice_def mallory_def)
  have h3: "map_of mallory ''password'' = Some (JStr ''deadbeef'')"
    by (simp add: mallory_def)
  show ?thesis
    using h1 h2 h3
      no_separator_raises [of "''deadbeef''" sample_crypto "Some (JStr ''hunter2'')"
        memory_storage "[alice, mallory]" "credentials ''mallory'' ''hunter2''" mallory]
    by (simp add: error_body_def)
qed

section \<open>Register and login\<close>

lemma length_from_hex: "list_all is_hex h \<Longrightarrow> length (from_hex h) = length h div 2"
  by (induction h rule: from_hex.induct) (auto simp: is_hex_def)

lemma comparePasswords_well_formed:
  assumes "well_formed_stored stored" and "\<forall>salt. length (scrypt c p salt 64) = 64"
  shows "\<exists>ok. comparePasswords c (Some (JStr p)) (Some (JStr stored)) = Inr ok"
proof -
  from assms(1) obtain hashed salt where
    parts: "split_on CHR ''.'' stored = [hashed, salt]" and
    len: "length hashed = 128" and hex: "list_all is_hex hashed"
    by (auto simp: well_formed_stored_def split: list.splits)
  have "length (from_hex hashed) = 64"
    using length_from_hex [OF hex] len by simp
  then show ?thesis
    using assms(2)
    by (simp add: comparePasswords_def parts scryptAsync_def timingSafeEqual_def)
qed

text \<open>
  C4. For every register request: when storage returns a user for the request's
  username, the handler answers 400 with the conflict message and the storage state is
  the one it started from (\<open>createUser\<close> is not applied); when storage finds no user,
  hashing the request's password gives \<open>hashed\<close> and \<open>createUser\<close>, applied to the body
  with its password replaced by \<open>hashed\<close>, returns the created user, the handler answers
  201 with that user less its password, in the storage state \<open>createUser\<close> left. Hashing
  gives a result whenever the request's password is a string.
\<close>

theorem register_existing_or_new:
  "(getUserByUsername st s (map_of (body req) ''username'') = Inr (Some existingUser) \<longrightarrow>
      register_handler c st req s =
        (\<lparr>status = 400, json = error_body ''Username already exists''\<rparr>, s)) \<and>
   (getUserByUsername st s (map_of (body req) ''username'') = Inr None \<and>
    hashPassword c (map_of (body req) ''password'') = Inr hashed \<and>
    createUser st s (AList.update ''password'' (JStr hashed) (body req)) = (Inr user, s') \<longrightarrow>
      register_handler c st req s =
        (\<lparr>status = 201, json = JObj (AList.delete ''password'' user)\<rparr>, s')) \<and>
   (map_of (body req) ''password'' = Some (JStr p) \<longrightarrow>
      (\<exists>h. hashPassword c (map_of (body req) ''password'') = Inr h))"
proof (intro conjI impI)
  assume "getUserByUsername st s (map_of (body req) ''username'') = Inr (Some existingUser)"
  then show "register_handler c st req s =
      (\<lparr>status = 400, json = error_body ''Username already exists''\<rparr>, s)"
    by (simp add: register_handler_def)
next
  assume "getUserByUsername st s (map_of (body req) ''username'') = Inr None \<and>
    hashPassword c (map_of (body req) ''password'') = Inr hashed \<and>
    createUser st s (AList.update ''password'' (JStr hashed) (body req)) = (Inr user, s')"
  then show "register_handler c st req s =
      (\<lparr>status = 201, json = JObj (AList.delete ''password'' user)\<rparr>, s')"
    by (simp add: register_handler_def)
next
  assume "map_of (body req) ''password'' = Some (JStr p)"
  then show "\<exists>h. hashPassword c (map_of (body req) ''password'') = Inr h"
    by (simp add: hashPassword_string del: append.simps)
qed

theorem register_existing_or_new_witness:
  "getUserByUsername memory_storage [alice, mallory]
     (map_of (body (credentials ''alice'' ''x'')) ''username'') = Inr (Some alice) \<and>
   register_handler sample_crypto memory_storage (credentials ''alice'' ''x'') [alice, mallory] =
     (\<lparr>status = 400, json = JObj [(''error'', JStr ''Username already exists'')]\<rparr>, [alice, mallory]) \<and>
   getUserByUsername memory_storage [alice, mallory]
     (map_of (body (credentials ''bob'' ''hunter2'')) ''username'') = Inr None \<and>
   hashPassword sample_crypto (map_of (body (credentials ''bob'' ''hunter2'')) ''password'') = Inr hunter2_stored \<and>
   createUser memory_storage [alice, mallory]
     (AList.update ''password'' (JStr hunter2_stored) (body (credentials ''bob'' ''hunter2''))) =
     (Inr bob, [alice, mallory, bob]) \<and>
   register_handler sample_crypto memory_storage (credentials ''bob'' ''hunter2'') [alice, mallory] =
     (\<lparr>status = 201, json = JObj [(''id'', JNum (Num 3)), (''username'', JStr ''bob'')]\<rparr>,
      [alice, mallory, bob])"
proof -
  have a1: "getUserByUsername memory_storage [alice, mallory]
     (map_of (body (credentials ''alice'' ''x'')) ''username'') = Inr (Some alice)"
    by (simp add: memory_storage_def credentials_def alice_def)
  have b1: "getUserByUsername memory_storage [alice, mallory]
     (map_of (body (credentials ''bob'' ''hunter2'')) ''username'') = Inr None"
    by (simp add: memory_storage_def credentials_def alice_def mallory_def)
  have b2: "hashPassword sample_crypto (map_of (body (credentials ''bob'' ''hunter2'')) ''password'') = Inr hunter2_stored"
    by (simp add: credentials_def sample_hash)
  have b3: "createUser memory_storage [alice, mallory]
     (AList.update ''password'' (JStr hunter2_stored) (body (credentials ''bob'' ''hunter2''))) =
     (Inr bob, [alice, mallory, bob])"
    by (simp add: memory_storage_def credentials_def bob_def)
  have d: "AList.delete ''password'' bob = [(''id'', JNum (Num 3)), (''username'', JStr ''bob'')]"
    by (simp add: bob_def AList.delete_eq)
  show ?thesis
    using a1 b1 b2 b3
      register_existing_or_new [of memory_storage "[alice, mallory]" "credentials ''alice'' ''x''"
        alice sample_crypto]
      register_existing_or_new [of memory_storage "[alice, mallory]" "credentials ''bob'' ''hunter2''"
        _ sample_crypto hunter2_stored bob "[alice, mallory, bob]"]
    by (simp add: error_body_def d)
qed

text \<open>
  C5. For every login request the handler answers 401 exactly when storage finds no
  user or \<open>comparePasswords\<close> of the supplied password against the user's stored
  credential returns false. When it returns true the handler answers 200 with the user
  record less its password. When the stored credential is well formed, the supplied
  password is a string and the key derivation gives the 64 bytes asked of it,
  \<open>comparePasswords\<close> returns a boolean, and the answer is 200 or 401.
\<close>

theorem login_unauthorized_iff:
  "(status (login_handler c st req s) = 401 \<longleftrightarrow>
      getUserByUsername st s (map_of (body req) ''username'') = Inr None \<or>
      (\<exists>u. getUserByUsername st s (map_of (body req) ''username'') = Inr (Some u) \<and>
           comparePasswords c (map_of (body req) ''password'') (map_of u ''password'') = Inr False)) \<and>
   (getUserByUsername st s (map_of (body req) ''username'') = Inr (Some user) \<and>
    comparePasswords c (map_of (body req) ''password'') (map_of user ''password'') = Inr True \<longrightarrow>
      login_handler c st req s = \<lparr>status = 200, json = JObj (AList.delete ''password'' user)\<rparr>) \<and>
   (getUserByUsername st s (map_of (body req) ''username'') = Inr (Some user) \<and>
    map_of user ''password'' = Some (JStr stored) \<and> well_formed_stored stored \<and>
    map_of (body req) ''password'' = Some (JStr p) \<and>
    (\<forall>salt. length (scrypt c p salt 64) = 64) \<longrightarrow>
      (\<exists>ok. comparePasswords c (map_of (body req) ''password'') (map_of user ''password'') = Inr ok) \<and>
      status (login_handler c st req s) \<in> {200, 401})"
proof (intro conjI impI)
  show "status (login_handler c st req s) = 401 \<longleftrightarrow>
      getUserByUsername st s (map_of (body req) ''username'') = Inr None \<or>
      (\<exists>u. getUserByUsername st s (map_of (body req) ''username'') = Inr (Some u) \<and>
           comparePasswords c (map_of (body req) ''password'') (map_of u ''password'') = Inr False)"
    by (auto simp: login_handler_def split: sum.splits option.splits)
next
  assume "getUserByUsername st s (map_of (body req) ''username'') = Inr (Some user) \<and>
    comparePasswords c (map_of (body req) ''password'') (map_of user ''password'') = Inr True"
  then show "login_handler c st req s = \<lparr>status = 200, json = JObj (AList.delete ''password'' user)\<rparr>"
    by (simp add: login_handler_def)
next
  assume h: "getUserByUsername st s (map_of (body req) ''username'') = Inr (Some user) \<and>
    map_of user ''password'' = Some (JStr stored) \<and> well_formed_stored stored \<and>
    map_of (body req) ''password'' = Some (JStr p) \<and>
    (\<forall>salt. length (scrypt c p salt 64) = 64)"
  then obtain ok where ok: "comparePasswords c (Some (JStr p)) (Some (JStr stored)) = Inr ok"
    using comparePasswords_well_formed by blast
  with h show "\<exists>ok. comparePasswords c (map_of (body req) ''password'') (map_of user ''password'') = Inr ok"
    by simp
  from h ok show "status (login_handler c st req s) \<in> {200, 401}"
    by (simp add: login_handler_def)
qed

lemma sample_verify_right:
  "comparePasswords sample_crypto (Some (JStr ''hunter2'')) (Some (JStr hunter2_stored)) = Inr True"
  unfolding hunter2_stored_def by code_simp

lemma sample_verify_wrong:
  "comparePasswords sample_crypto (Some (JStr ''hunter3'')) (Some (JStr hunter2_stored)) = Inr False"
  unfolding hunter2_stored_def by code_simp

lemma sample_well_formed: "well_formed_stored hunter2_stored"
  unfolding hunter2_stored_def by code_simp

lemma sample_lookup_alice:
  "getUserByUsername memory_storage [alice, mallory]
     (map_of (body (credentials ''alice'' pw)) ''username'') = Inr (Some alice)"
  by (simp add: memory_storage_def credentials_def alice_def)

lemma sample_lookup_bob:
  "getUserByUsername memory_storage [alice, mallory]
     (map_of (body (credentials ''bob'' pw)) ''username'') = Inr None"
  by (simp add: memory_storage_def credentials_def alice_def mallory_def)

lemma sample_create_bob:
  "createUser memory_storage [alice, mallory]
     (AList.update ''password'' (JStr hunter2_stored) (body (credentials ''bob'' ''hunter2''))) =
     (Inr bob, [alice, mallory, bob])"
  by (simp add: memory_storage_def credentials_def bob_def)

lemma sample_supplied: "map_of (body (credentials name pw)) ''password'' = Some (JStr pw)"
  by (simp add: credentials_def)

lemma alice_password: "map_of alice ''password'' = Some (JStr hunter2_stored)"
  by (simp add: alice_def)

lemma alice_public:
  "AList.delete ''password'' alice = [(''id'', JNum (Num 1)), (''username'', JStr ''alice'')]"
  by (simp add: alice_def AList.delete_eq)

theorem login_unauthorized_iff_witness:
  "getUserByUsername memory_storage [alice, mallory]
     (map_of (body (credentials ''bob'' ''hunter2'')) ''username'') = Inr None \<and>
   status (login_handler sample_crypto memory_storage (credentials ''bob'' ''hunter2'') [alice, mallory]) = 401 \<and>
   comparePasswords sample_crypto (Some (JStr ''hunter3'')) (map_of alice ''password'') = Inr False \<and>
   status (login_handler sample_crypto memory_storage (credentials ''alice'' ''hunter3'') [alice, mallory]) = 401 \<and>
   comparePasswords sample_crypto (Some (JStr ''hunter2'')) (map_of alice ''password'') = Inr True \<and>
   well_formed_stored hunter2_stored \<and>
   login_handler sample_crypto memory_storage (credentials ''alice'' ''hunter2'') [alice, mallory] =
     \<lparr>status = 200, json = JObj [(''id'', JNum (Num 1)), (''username'', JStr ''alice'')]\<rparr>"
proof -
  have len: "\<forall>salt. length (scrypt sample_crypto ''hunter2'' salt 64) = 64"
    by (simp add: sample_crypto_def min_def)
  show ?thesis
    using len sample_well_formed
      login_unauthorized_iff [of sample_crypto memory_storage "credentials ''bob'' ''hunter2''"
        "[alice, mallory]" alice hunter2_stored "''hunter2''"]
      login_unauthorized_iff [of sample_crypto memory_storage "credentials ''alice'' ''hunter3''"
        "[alice, mallory]" alice hunter2_stored "''hunter3''"]
      login_unauthorized_iff [of sample_crypto memory_storage "credentials ''alice'' ''hunter2''"
        "[alice, mallory]" alice hunter2_stored "''hunter2''"]
    by (simp add: sample_lookup_alice sample_lookup_bob sample_supplied alice_password
          sample_verify_right sample_verify_wrong alice_public)
qed

text \<open>
  C6. Whatever record storage returns, a 201 answer of the register handler and a 200
  answer of the login handler carry an object with no \<open>password\<close> property.
\<close>

lemma no_password_after_delete: "map_of (AList.delete ''password'' user) ''password'' = None"
  by (simp add: AList.delete_eq map_of_eq_None_iff image_iff)

theorem success_hides_password:
  "(status (fst (register_handler c st req s)) = 201 \<longrightarrow>
      (\<exists>props. json (fst (register_handler c st req s)) = JObj props \<and>
                map_of props ''password'' = None)) \<and>
   (status (login_handler c st req s) = 200 \<longrightarrow>
      (\<exists>props. json (login_handler c st req s) = JObj props \<and>
                map_of props ''password'' = None))"
  by (auto simp: register_handler_def login_handler_def no_password_after_delete
        split: sum.splits option.splits prod.splits)

theorem success_hides_password_witness:
  "status (fst (register_handler sample_crypto memory_storage (credentials ''bob'' ''hunter2'') [alice, mallory])) = 201 \<and>
   map_of bob ''password'' = Some (JStr hunter2_stored) \<and>
   (\<exists>props. json (fst (register_handler sample_crypto memory_storage (credentials ''bob'' ''hunter2'') [alice, mallory])) = JObj props \<and>
       map_of props ''password'' = None) \<and>
   status (login_handler sample_crypto memory_storage (credentials ''alice'' ''hunter2'') [alice, mallory]) = 200 \<and>
   (\<exists>props. json (login_handler sample_crypto memory_storage (credentials ''alice'' ''hunter2'') [alice, mallory]) = JObj props \<and>
       map_of props ''password'' = None)"
proof -
  have r: "status (fst (register_handler sample_crypto memory_storage (credentials ''bob'' ''hunter2'') [alice, mallory])) = 201"
    by (simp add: register_handler_def sample_lookup_bob sample_supplied sample_hash
          sample_create_bob)
  have l: "status (login_handler sample_crypto memory_storage (credentials ''alice'' ''hunter2'') [alice, mallory]) = 200"
    by (simp add: login_handler_def sample_lookup_alice sample_supplied alice_password
          sample_verify_right)
  have b: "map_of bob ''password'' = Some (JStr hunter2_stored)"
    by (simp add: bob_def)
  show ?thesis
    using r l b
      success_hides_password [of sample_crypto memory_storage "credentials ''bob'' ''hunter2''"
        "[alice, mallory]"]
      success_hides_password [of sample_crypto memory_storage "credentials ''alice'' ''hunter2''"
        "[alice, mallory]"]
    by simp
qed

section \<open>The fallback table\<close>

lemma conversion_rate_fallback:
  "conversion_rate (getFallbackRates now baseCurrency) currency =
     map_option (\<lambda>rate. JNum (js_divide rate (or_one (get_property baseRates baseCurrency))))
       (map_of baseRates currency)"
  by (simp add: conversion_rate_def getFallbackRates_def Let_def map_of_map)

lemma base_code_fallback:
  "\<exists>props. getFallbackRates now baseCurrency = JObj props \<and>
     map_of props ''base_code'' = Some (JStr baseCurrency)"
  by (simp add: getFallbackRates_def Let_def)

lemma baseRates_nonzero: "map_of baseRates k = Some b \<Longrightarrow> b \<noteq> 0"
  by (auto simp: baseRates_def split: if_splits)

lemma fallback_currencies:
  "\<exists>props rates. getFallbackRates now baseCurrency = JObj props \<and>
     map_of props ''conversion_rates'' = Some (JObj rates) \<and>
     map fst rates =
       [''USD'', ''EUR'', ''GBP'', ''JPY'', ''CAD'', ''AUD'', ''CHF'', ''CNY'', ''INR'', ''RUB'']"
  by (simp add: getFallbackRates_def Let_def baseRates_def)

text \<open>
  The snapshot for a base currency of the table, and for one that is neither in the
  table nor a name \<^verbatim>\<open>Object.prototype\<close> defines: every table rate over the base's
  baseline, or over 1.
\<close>

lemma fallback_rate_in_table:
  "map_of baseRates baseCurrency = Some b \<Longrightarrow> map_of baseRates currency = Some rate \<Longrightarrow>
     conversion_rate (getFallbackRates now baseCurrency) currency = Some (JNum (Num (rate / b)))"
  using baseRates_nonzero [of baseCurrency b]
  by (simp add: conversion_rate_fallback get_property_def or_one_def js_divide_def)

lemma fallback_rate_unknown_base:
  "map_of baseRates baseCurrency = None \<Longrightarrow> baseCurrency \<notin> set object_prototype_names \<Longrightarrow>
   map_of baseRates currency = Some rate \<Longrightarrow>
     conversion_rate (getFallbackRates now baseCurrency) currency = Some (JNum (Num (rate / 1)))"
  by (simp add: conversion_rate_fallback get_property_def or_one_def js_divide_def)

lemma fallback_rate_outside_table:
  "map_of baseRates currency = None \<Longrightarrow>
     conversion_rate (getFallbackRates now baseCurrency) currency = None"
  by (simp add: conversion_rate_fallback)

lemma fallback_EUR:
  "conversion_rate (getFallbackRates now ''EUR'') ''USD'' = Some (JNum (Num (1 / 0.85))) \<and>
   conversion_rate (getFallbackRates now ''EUR'') ''EUR'' = Some (JNum (Num 1))"
  by (simp add: conversion_rate_fallback get_property_def or_one_def js_divide_def baseRates_def)

text \<open>
  C3, at the base currency \<open>toString\<close>. The name is not in the table, so the snapshot
  should hold every baseline rate divided by 1. The property read finds the function
  \<^verbatim>\<open>Object.prototype.toString\<close>, which is truthy, so \<^verbatim>\<open>|| 1\<close> keeps it, and every rate
  divided by it is \<open>NaN\<close>.
\<close>

theorem fallback_inherited_name:
  "map_of baseRates ''toString'' = None \<and>
   get_property baseRates ''toString'' = Inherited \<and>
   getFallbackRates now ''toString'' =
     JObj [(''base_code'', JStr ''toString''),
           (''conversion_rates'',
            JObj [(''USD'', JNum NaN), (''EUR'', JNum NaN), (''GBP'', JNum NaN), (''JPY'', JNum NaN),
                  (''CAD'', JNum NaN), (''AUD'', JNum NaN), (''CHF'', JNum NaN), (''CNY'', JNum NaN),
                  (''INR'', JNum NaN), (''RUB'', JNum NaN)]),
           (''time_last_update_utc'', JStr now)] \<and>
   conversion_rate (getFallbackRates now ''toString'') ''USD'' \<noteq> Some (JNum (Num (1 / 1)))"
  by (simp add: conversion_rate_def getFallbackRates_def get_property_def or_one_def
        js_divide_def baseRates_def object_prototype_names_def)

section \<open>The resolver\<close>

text \<open>
  C7. For every base currency \<open>fetchExchangeRates\<close> returns the provider's response
  body as it is when an API key is set (and not empty) and the one GET, to the
  provider URL for that key and base, is answered with a status from 200 to 299. It
  returns the fallback snapshot for that base when no key is set (or the key is
  empty), when the GET gets no answer, and when the answer's status is below 200 or
  at least 300.
\<close>

theorem fetchExchangeRates_provider_or_fallback:
  "(EXCHANGE_RATE_API_KEY env = Some apiKey \<and> apiKey \<noteq> [] \<and>
    http_get env (provider_url apiKey baseCurrency) = HttpResponse code payload \<and>
    200 \<le> code \<and> code < 300 \<longrightarrow>
      fetchExchangeRates env baseCurrency = Inr payload) \<and>
   (EXCHANGE_RATE_API_KEY env = None \<or> EXCHANGE_RATE_API_KEY env = Some [] \<longrightarrow>
      fetchExchangeRates env baseCurrency = Inr (getFallbackRates (utc_now env) baseCurrency)) \<and>
   (EXCHANGE_RATE_API_KEY env = Some apiKey \<and>
    http_get env (provider_url apiKey baseCurrency) = NetworkError msg \<longrightarrow>
      fetchExchangeRates env baseCurrency = Inr (getFallbackRates (utc_now env) baseCurrency)) \<and>
   (EXCHANGE_RATE_API_KEY env = Some apiKey \<and>
    http_get env (provider_url apiKey baseCurrency) = HttpResponse code payload \<and>
    (code < 200 \<or> 300 \<le> code) \<longrightarrow>
      fetchExchangeRates env baseCurrency = Inr (getFallbackRates (utc_now env) baseCurrency))"
proof (intro conjI impI)
  assume "EXCHANGE_RATE_API_KEY env = Some apiKey \<and> apiKey \<noteq> [] \<and>
    http_get env (provider_url apiKey baseCurrency) = HttpResponse code payload \<and>
    200 \<le> code \<and> code < 300"
  then show "fetchExchangeRates env baseCurrency = Inr payload"
    by (simp add: fetchExchangeRates_def axios_get_def)
next
  assume "EXCHANGE_RATE_API_KEY env = None \<or> EXCHANGE_RATE_API_KEY env = Some []"
  then show "fetchExchangeRates env baseCurrency =
      Inr (getFallbackRates (utc_now env) baseCurrency)"
    by (auto simp: fetchExchangeRates_def)
next
  assume "EXCHANGE_RATE_API_KEY env = Some apiKey \<and>
    http_get env (provider_url apiKey baseCurrency) = NetworkError msg"
  then show "fetchExchangeRates env baseCurrency =
      Inr (getFallbackRates (utc_now env) baseCurrency)"
    by (simp add: fetchExchangeRates_def axios_get_def)
next
  assume "EXCHANGE_RATE_API_KEY env = Some apiKey \<and>
    http_get env (provider_url apiKey baseCurrency) = HttpResponse code payload \<and>
    (code < 200 \<or> 300 \<le> code)"
  then show "fetchExchangeRates env baseCurrency =
      Inr (getFallbackRates (utc_now env) baseCurrency)"
    by (auto simp: fetchExchangeRates_def axios_get_def)
qed

lemma sample_env_USD:
  "http_get sample_env (provider_url ''k3y'' ''USD'') =
     HttpResponse 200 (JObj [(''result'', JStr ''success'')])"
  by (simp add: sample_env_def provider_url_def)

lemma sample_env_XXX:
  "http_get sample_env (provider_url ''k3y'' ''XXX'') =
     HttpResponse 404 (JObj [(''result'', JStr ''error'')])"
  by (simp add: sample_env_def provider_url_def)

lemma sample_env_EUR:
  "http_get sample_env (provider_url ''k3y'' ''EUR'') = NetworkError ''ECONNRESET''"
  by (simp add: sample_env_def provider_url_def)

theorem fetchExchangeRates_provider_or_fallback_witness:
  "EXCHANGE_RATE_API_KEY sample_env = Some ''k3y'' \<and>
   http_get sample_env (provider_url ''k3y'' ''USD'') =
     HttpResponse 200 (JObj [(''result'', JStr ''success'')]) \<and>
   fetchExchangeRates sample_env ''USD'' = Inr (JObj [(''result'', JStr ''success'')]) \<and>
   http_get sample_env (provider_url ''k3y'' ''XXX'') =
     HttpResponse 404 (JObj [(''result'', JStr ''error'')]) \<and>
   fetchExchangeRates sample_env ''XXX'' = Inr (getFallbackRates (utc_now sample_env) ''XXX'') \<and>
   http_get sample_env (provider_url ''k3y'' ''EUR'') = NetworkError ''ECONNRESET'' \<and>
   fetchExchangeRates sample_env ''EUR'' = Inr (getFallbackRates (utc_now sample_env) ''EUR'') \<and>
   EXCHANGE_RATE_API_KEY offline_env = None \<and>
   fetchExchangeRates offline_env ''EUR'' = Inr (getFallbackRates (utc_now offline_env) ''EUR'')"
proof -
  have k: "EXCHANGE_RATE_API_KEY sample_env = Some ''k3y''"
    by (simp add: sample_env_def)
  have n: "EXCHANGE_RATE_API_KEY offline_env = None"
    by (simp add: offline_env_def)
  show ?thesis
    using k n sample_env_USD sample_env_XXX sample_env_EUR
      fetchExchangeRates_provider_or_fallback [of sample_env "''k3y''" "''USD''" 200
        "JObj [(''result'', JStr ''success'')]"]
      fetchExchangeRates_provider_or_fallback [of sample_env "''k3y''" "''XXX''" 404
        "JObj [(''result'', JStr ''error'')]"]
      fetchExchangeRates_provider_or_fallback [of sample_env "''k3y''" "''EUR''" _ _ "''ECONNRESET''"]
      fetchExchangeRates_provider_or_fallback [of offline_env _ "''EUR''"]
    by simp
qed

section \<open>Listing conversions\<close>








section \<open>The catch of every route\<close>

lemma register_catch:
  "getUserByUsername st s (map_of (body req) ''username'') = Inl e \<or>
   getUserByUsername st s (map_of (body req) ''username'') = Inr None \<and>
     hashPassword c (map_of (body req) ''password'') = Inl e \<or>
   getUserByUsername st s (map_of (body req) ''username'') = Inr None \<and>
     hashPassword c (map_of (body req) ''password'') = Inr hashed \<and>
     fst (createUser st s (AList.update ''password'' (JStr hashed) (body req))) = Inl e \<longrightarrow>
   fst (register_handler c st req s) =
     \<lparr>status = 500, json = error_body ''Failed to register user''\<rparr>"
  by (auto simp: register_handler_def split: prod.splits)

lemma login_catch:
  "getUserByUsername st s (map_of (body req) ''username'') = Inl e \<or>
   getUserByUsername st s (map_of (body req) ''username'') = Inr (Some user) \<and>
     comparePasswords c (map_of (body req) ''password'') (map_of user ''password'') = Inl e \<longrightarrow>
   login_handler c st req s = \<lparr>status = 500, json = error_body ''Login failed''\<rparr>"
  by (auto simp: login_handler_def)

lemma exchange_rates_catch:
  "fetch (requested_base req) = Inl e \<longrightarrow>
   exchange_rates_route fetch req =
     \<lparr>status = 500, json = error_body ''Failed to fetch exchange rates''\<rparr>"
  by (simp add: exchange_rates_route_def)

lemma post_conversions_catch:
  "ToString_opt rt (map_of (body req) ''userId'') = Inl e \<or>
   ToString_opt rt (map_of (body req) ''userId'') = Inr inputString \<and>
     fst (saveConversion st s
       (AList.update ''userId'' (JNum (parseInt rt inputString)) (body req))) = Inl e \<longrightarrow>
   fst (post_conversions_handler rt st req s) =
     \<lparr>status = 500, json = error_body ''Failed to save conversion''\<rparr>"
  by (auto simp: post_conversions_handler_def Let_def split: prod.splits sum.splits)

lemma get_conversions_catch:
  "getConversions st s (parseInt rt (query_string req ''userId''))
      (or_default (parseInt rt (query_string req ''page'')) (Num 1))
      (or_default (parseInt rt (query_string req ''pageSize'')) (Num 10)) = Inl e \<longrightarrow>
   get_conversions_handler rt st req s =
     \<lparr>status = 500, json = error_body ''Failed to fetch conversions''\<rparr>"
  by (simp add: get_conversions_handler_def Let_def)

lemma register_statuses:
  "status (fst (register_handler c st req s)) \<in> {201, 400, 500} \<and>
   (status (fst (register_handler c st req s)) = 500 \<longrightarrow>
      json (fst (register_handler c st req s)) = error_body ''Failed to register user'') \<and>
   (status (fst (register_handler c st req s)) = 400 \<longrightarrow>
      json (fst (register_handler c st req s)) = error_body ''Username already exists'')"
  by (simp add: register_handler_def split: sum.splits option.splits prod.splits)

lemma login_statuses:
  "status (login_handler c st req s) \<in> {200, 401, 500} \<and>
   (status (login_handler c st req s) = 500 \<longrightarrow>
      json (login_handler c st req s) = error_body ''Login failed'') \<and>
   (status (login_handler c st req s) = 401 \<longrightarrow>
      json (login_handler c st req s) = error_body ''Invalid username or password'')"
  by (simp add: login_handler_def split: sum.splits option.splits)

lemma exchange_rates_statuses:
  "status (exchange_rates_route fetch req) \<in> {200, 500} \<and>
   (status (exchange_rates_route fetch req) = 500 \<longrightarrow>
      json (exchange_rates_route fetch req) = error_body ''Failed to fetch exchange rates'')"
  by (simp add: exchange_rates_route_def split: sum.splits)

lemma post_conversions_statuses:
  "status (fst (post_conversions_handler rt st req s)) \<in> {201, 500} \<and>
   (status (fst (post_conversions_handler rt st req s)) = 500 \<longrightarrow>
      json (fst (post_conversions_handler rt st req s)) = error_body ''Failed to save conversion'')"
  by (simp add: post_conversions_handler_def Let_def split: sum.splits prod.splits)

lemma get_conversions_statuses:
  "status (get_conversions_handler rt st req s) \<in> {200, 500} \<and>
   (status (get_conversions_handler rt st req s) = 500 \<longrightarrow>
      json (get_conversions_handler rt st req s) = error_body ''Failed to fetch conversions'')"
  by (simp add: get_conversions_handler_def Let_def split: sum.splits)

lemma fetchExchangeRates_never_raises: "\<exists>rates. fetchExchangeRates env baseCurrency = Inr rates"
  by (simp add: fetchExchangeRates_def split: option.splits sum.splits)

lemma exchange_rates_handler_200: "status (exchange_rates_handler env req) = 200"
  using fetchExchangeRates_never_raises [of env "requested_base req"]
  by (auto simp: exchange_rates_handler_def exchange_rates_route_def)

text \<open>
  C9. In each of the five routes, when a step of the handler raises an error \<open>e\<close>
  (the user lookup, the hashing or \<open>createUser\<close> in register; the user lookup or the
  credential check in login; the rate fetch; the conversion of \<open>userId\<close> to a string
  or \<open>saveConversion\<close>; \<open>getConversions\<close>), the answer is 500 with the route's fixed
  message, the same for every \<open>e\<close>. Register
  answers 201, 400 or 500, login 200, 401 or 500, the exchange-rate route 200 or 500,
  the two conversion routes 201 or 500 and 200 or 500: a failure is always 400, 401
  or 500, and every 500 carries the route's fixed message. The rate fetch the handler
  is wired to, \<open>fetchExchangeRates\<close>, recovers every provider failure itself and never
  raises, so the exchange-rate handler always answers 200.
\<close>

theorem handlers_catch_all:
  "(getUserByUsername st s (map_of (body req) ''username'') = Inl e \<or>
    getUserByUsername st s (map_of (body req) ''username'') = Inr None \<and>
      hashPassword c (map_of (body req) ''password'') = Inl e \<or>
    getUserByUsername st s (map_of (body req) ''username'') = Inr None \<and>
      hashPassword c (map_of (body req) ''password'') = Inr hashed \<and>
      fst (createUser st s (AList.update ''password'' (JStr hashed) (body req))) = Inl e \<longrightarrow>
    fst (register_handler c st req s) =
      \<lparr>status = 500, json = error_body ''Failed to register user''\<rparr>) \<and>
   (getUserByUsername st s (map_of (body req) ''username'') = Inl e \<or>
    getUserByUsername st s (map_of (body req) ''username'') = Inr (Some user) \<and>
      comparePasswords c (map_of (body req) ''password'') (map_of user ''password'') = Inl e \<longrightarrow>
    login_handler c st req s = \<lparr>status = 500, json = error_body ''Login failed''\<rparr>) \<and>
   (fetch (requested_base req) = Inl e \<longrightarrow>
    exchange_rates_route fetch req =
      \<lparr>status = 500, json = error_body ''Failed to fetch exchange rates''\<rparr>) \<and>
   (ToString_opt rt (map_of (body req) ''userId'') = Inl e \<or>
    ToString_opt rt (map_of (body req) ''userId'') = Inr inputString \<and>
      fst (saveConversion st s
        (AList.update ''userId'' (JNum (parseInt rt inputString)) (body req))) = Inl e \<longrightarrow>
    fst (post_conversions_handler rt st req s) =
      \<lparr>status = 500, json = error_body ''Failed to save conversion''\<rparr>) \<and>
   (getConversions st s (parseInt rt (query_string req ''userId''))
       (or_default (parseInt rt (query_string req ''page'')) (Num 1))
       (or_default (parseInt rt (query_string req ''pageSize'')) (Num 10)) = Inl e \<longrightarrow>
    get_conversions_handler rt st req s =
      \<lparr>status = 500, json = error_body ''Failed to fetch conversions''\<rparr>) \<and>
   status (fst (register_handler c st req s)) \<in> {201, 400, 500} \<and>
   status (login_handler c st req s) \<in> {200, 401, 500} \<and>
   status (exchange_rates_route fetch req) \<in> {200, 500} \<and>
   status (exchange_rates_handler env req) = 200 \<and>
   status (fst (post_conversions_handler rt st req s)) \<in> {201, 500} \<and>
   status (get_conversions_handler rt st req s) \<in> {200, 500} \<and>
   (status (fst (register_handler c st req s)) = 500 \<longrightarrow>
      json (fst (register_handler c st req s)) = error_body ''Failed to register user'') \<and>
   (status (login_handler c st req s) = 500 \<longrightarrow>
      json (login_handler c st req s) = error_body ''Login failed'') \<and>
   (status (exchange_rates_route fetch req) = 500 \<longrightarrow>
      json (exchange_rates_route fetch req) = error_body ''Failed to fetch exchange rates'') \<and>
   (status (fst (post_conversions_handler rt st req s)) = 500 \<longrightarrow>
      json (fst (post_conversions_handler rt st req s)) = error_body ''Failed to save conversion'') \<and>
   (status (get_conversions_handler rt st req s) = 500 \<longrightarrow>
      json (get_conversions_handler rt st req s) = error_body ''Failed to fetch conversions'')"
  by (intro conjI register_catch login_catch exchange_rates_catch post_conversions_catch
        get_conversions_catch exchange_rates_handler_200
        register_statuses [THEN conjunct1] register_statuses [THEN conjunct2, THEN conjunct1]
        login_statuses [THEN conjunct1] login_statuses [THEN conjunct2, THEN conjunct1]
        exchange_rates_statuses [THEN conjunct1] exchange_rates_statuses [THEN conjunct2]
        post_conversions_statuses [THEN conjunct1] post_conversions_statuses [THEN conjunct2]
        get_conversions_statuses [THEN conjunct1] get_conversions_statuses [THEN conjunct2])

lemma broken_lookup:
  "getUserByUsername broken_storage [] (map_of (body req) ''username'') =
     Inl (Thrown ''connection lost'')"
  by (simp add: broken_storage_def)

lemma broken_save:
  "fst (saveConversion broken_storage [] conv) = Inl (Thrown ''connection lost'')"
  by (simp add: broken_storage_def)

lemma undefined_userId:
  "ToString_opt rt (map_of (body (credentials name pw)) ''userId'') = Inr ''undefined''"
  by (simp add: ToString_opt_def credentials_def)

lemma hidden_toString:
  "ToString_opt rt (Some (JObj [(''toString'', v)])) = Inl TypeError"
  by (simp add: ToString_opt_def)

lemma broken_list:
  "getConversions broken_storage [] userId page pageSize = Inl (Thrown ''connection lost'')"
  by (simp add: broken_storage_def)

lemma anonymous_lookup:
  "getUserByUsername memory_storage [alice, mallory] (map_of (body (listing [])) ''username'') =
     Inr None"
  by (simp add: memory_storage_def listing_def alice_def mallory_def)

lemma anonymous_hash:
  "hashPassword sample_crypto (map_of (body (listing [])) ''password'') = Inl TypeError"
  by (simp add: hashPassword_def scryptAsync_def listing_def)

lemma mallory_lookup:
  "getUserByUsername memory_storage [alice, mallory]
     (map_of (body (credentials ''mallory'' pw)) ''username'') = Inr (Some mallory)"
  by (simp add: memory_storage_def credentials_def alice_def mallory_def)

lemma mallory_verify:
  "comparePasswords sample_crypto (map_of (body (credentials ''mallory'' pw)) ''password'')
     (map_of mallory ''password'') = Inl TypeError"
  by (simp add: mallory_def comparePasswords_no_dot)

lemma readonly_lookup_bob:
  "getUserByUsername readonly_storage [alice, mallory]
     (map_of (body (credentials ''bob'' pw)) ''username'') = Inr None"
  by (simp add: readonly_storage_def credentials_def alice_def mallory_def)

lemma readonly_create:
  "fst (createUser readonly_storage s u) = Inl (Thrown ''read-only file system'')"
  by (simp add: readonly_storage_def)

theorem handlers_catch_all_witness:
  "getUserByUsername broken_storage [] (map_of (body (credentials ''alice'' ''hunter2'')) ''username'') =
     Inl (Thrown ''connection lost'') \<and>
   fst (register_handler sample_crypto broken_storage (credentials ''alice'' ''hunter2'') []) =
     \<lparr>status = 500, json = JObj [(''error'', JStr ''Failed to register user'')]\<rparr> \<and>
   login_handler sample_crypto broken_storage (credentials ''alice'' ''hunter2'') [] =
     \<lparr>status = 500, json = JObj [(''error'', JStr ''Login failed'')]\<rparr> \<and>
   exchange_rates_route (\<lambda>b. Inl (Thrown ''connection lost'')) (credentials ''alice'' ''hunter2'') =
     \<lparr>status = 500, json = JObj [(''error'', JStr ''Failed to fetch exchange rates'')]\<rparr> \<and>
   fst (post_conversions_handler sample_builtins broken_storage (credentials ''alice'' ''hunter2'') []) =
     \<lparr>status = 500, json = JObj [(''error'', JStr ''Failed to save conversion'')]\<rparr> \<and>
   ToString_opt sample_builtins
     (map_of (body \<lparr>body = [(''userId'', JObj [(''toString'', JNum (Num 5))])], query = []\<rparr>) ''userId'') =
     Inl TypeError \<and>
   fst (post_conversions_handler sample_builtins memory_storage
     \<lparr>body = [(''userId'', JObj [(''toString'', JNum (Num 5))])], query = []\<rparr> []) =
     \<lparr>status = 500, json = JObj [(''error'', JStr ''Failed to save conversion'')]\<rparr> \<and>
   get_conversions_handler sample_builtins broken_storage (credentials ''alice'' ''hunter2'') [] =
     \<lparr>status = 500, json = JObj [(''error'', JStr ''Failed to fetch conversions'')]\<rparr> \<and>
   hashPassword sample_crypto (map_of (body (listing [])) ''password'') = Inl TypeError \<and>
   fst (register_handler sample_crypto memory_storage (listing []) [alice, mallory]) =
     \<lparr>status = 500, json = JObj [(''error'', JStr ''Failed to register user'')]\<rparr> \<and>
   fst (createUser readonly_storage [alice, mallory]
     (AList.update ''password'' (JStr hunter2_stored) (body (credentials ''bob'' ''hunter2'')))) =
     Inl (Thrown ''read-only file system'') \<and>
   fst (register_handler sample_crypto readonly_storage (credentials ''bob'' ''hunter2'') [alice, mallory]) =
     \<lparr>status = 500, json = JObj [(''error'', JStr ''Failed to register user'')]\<rparr> \<and>
   comparePasswords sample_crypto (map_of (body (credentials ''mallory'' ''hunter2'')) ''password'')
     (map_of mallory ''password'') = Inl TypeError \<and>
   login_handler sample_crypto memory_storage (credentials ''mallory'' ''hunter2'') [alice, mallory] =
     \<lparr>status = 500, json = JObj [(''error'', JStr ''Login failed'')]\<rparr>"
proof -
  have h: "hashPassword sample_crypto (map_of (body (credentials ''bob'' ''hunter2'')) ''password'') =
      Inr hunter2_stored"
    by (simp add: sample_supplied sample_hash)
  show ?thesis
    using h
      handlers_catch_all [where st = broken_storage and s = "[]"
        and req = "credentials ''alice'' ''hunter2''" and e = "Thrown ''connection lost''"
        and c = sample_crypto and fetch = "\<lambda>b. Inl (Thrown ''connection lost'')"
        and rt = sample_builtins and inputString = "''undefined''"]
      handlers_catch_all [where st = memory_storage and s = "[]"
        and req = "\<lparr>body = [(''userId'', JObj [(''toString'', JNum (Num 5))])], query = []\<rparr>"
        and e = TypeError and rt = sample_builtins]
      handlers_catch_all [where st = memory_storage and s = "[alice, mallory]"
        and req = "listing []" and e = TypeError and c = sample_crypto]
      handlers_catch_all [where st = readonly_storage and s = "[alice, mallory]"
        and req = "credentials ''bob'' ''hunter2''" and e = "Thrown ''read-only file system''"
        and c = sample_crypto and hashed = hunter2_stored]
      handlers_catch_all [where st = memory_storage and s = "[alice, mallory]"
        and req = "credentials ''mallory'' ''hunter2''" and e = TypeError and c = sample_crypto
        and user = mallory]
    by (simp add: broken_lookup broken_save broken_list undefined_userId hidden_toString
          anonymous_lookup anonymous_hash
          mallory_lookup mallory_verify readonly_lookup_bob readonly_create error_body_def)
qed

end
